theory Spec2Isabelle
  imports Main "HOL-Library.Char_ord" "HOL-Library.List_Lexorder"
begin

section \<open>Strings of the Python runtime\<close>

text \<open>
  A Python \<open>str\<close> is modelled as a \<^typ>\<open>string\<close>; a \<^typ>\<open>char\<close> stands for a code point
  in the range 0..255. File contents (\<open>bytes\<close>) are strings as well. Comparison of strings
  is lexicographic by code point, as Python's is.
\<close>

definition nl :: string where
  "nl = [CHR 0x0A]"

definition illegal_chars :: "char list" where
  \<comment> \<open>the character class of the \<open>re.sub\<close>: backslash, slash, colon, asterisk, question
      mark, double quote, less-than, greater-than, vertical bar\<close>
  "illegal_chars = [CHR 0x5C, CHR ''/'', CHR '':'', CHR ''*'', CHR ''?'', CHR 0x22,
                    CHR ''<'', CHR ''>'', CHR ''|'']"

definition py_isspace :: "char \<Rightarrow> bool" where
  \<comment> \<open>the code points below 256 that \<open>str.strip()\<close> removes\<close>
  "py_isspace c = (c \<in> set [CHR 0x09, CHR 0x0A, CHR 0x0B, CHR 0x0C, CHR 0x0D,
                               CHR 0x1C, CHR 0x1D, CHR 0x1E, CHR 0x1F, CHR 0x20,
                               CHR 0x85, CHR 0xA0])"

definition py_strip :: "string \<Rightarrow> string" where
  "py_strip s = rev (dropWhile py_isspace (rev (dropWhile py_isspace s)))"

definition sanitize_filename :: "string \<Rightarrow> string" where
  "sanitize_filename filename =
     py_strip (filter (\<lambda>c. c \<notin> set illegal_chars) filename)"

text \<open>\<open>s.replace(old, new)\<close> for a non-empty \<open>old\<close>: non-overlapping occurrences, left to right.\<close>

function py_replace :: "string \<Rightarrow> string \<Rightarrow> string \<Rightarrow> string" where
  "py_replace old new s =
     (if old \<noteq> [] \<and> take (length old) s = old
      then new @ py_replace old new (drop (length old) s)
      else (case s of [] \<Rightarrow> [] | c # cs \<Rightarrow> c # py_replace old new cs))"
  by pat_completeness auto
termination
proof (relation "measure (\<lambda>(old, new, s). length s)")
  fix old new s :: string
  assume a: "old \<noteq> [] \<and> take (length old) s = old"
  then have "length old \<le> length s"
    by (metis length_take min.cobounded1)
  with a show "((old, new, drop (length old) s), (old, new, s))
                 \<in> measure (\<lambda>(old, new, s). length s)"
    by (cases old) auto
qed auto

declare py_replace.simps [simp del]

definition html_to_txt :: "string \<Rightarrow> string" where
  \<comment> \<open>\<open>.replace('.html', '.txt')\<close>\<close>
  "html_to_txt s = py_replace ''.html'' ''.txt'' s"

text \<open>\<open>sub in s\<close> and \<open>s.endswith(suf)\<close>.\<close>

fun py_in :: "string \<Rightarrow> string \<Rightarrow> bool" where
  "py_in sub [] = (sub = [])"
| "py_in sub (c # cs) = (take (length sub) (c # cs) = sub \<or> py_in sub cs)"

definition endswith :: "string \<Rightarrow> string \<Rightarrow> bool" where
  "endswith s suf = (take (length suf) (rev s) = rev suf)"

text \<open>
  \<open>str(n)\<close> of a Python integer, and zero padding. Python's integers are unbounded, so
  they are \<^typ>\<open>int\<close>.
\<close>

definition digit :: "int \<Rightarrow> char" where
  "digit n = ''0123456789'' ! nat (n mod 10)"

function str_digits :: "int \<Rightarrow> string" where
  "str_digits n = (if n < 10 then [digit n] else str_digits (n div 10) @ [digit n])"
  by pat_completeness auto
termination
  by (relation "measure nat") auto

declare str_digits.simps [simp del]

definition py_str :: "int \<Rightarrow> string" where
  "py_str n = (if n < 0 then CHR ''-'' # str_digits (- n) else str_digits n)"

definition zfill :: "nat \<Rightarrow> string \<Rightarrow> string" where
  "zfill w s = replicate (w - length s) CHR ''0'' @ s"

text \<open>\<open>os.path.join(a, b)\<close> of \<open>posixpath\<close>, for two components.\<close>

definition dir_prefix :: "string \<Rightarrow> string" where
  "dir_prefix a = (if a = [] \<or> last a = CHR ''/'' then a else a @ ''/'')"

definition os_path_join :: "string \<Rightarrow> string \<Rightarrow> string" where
  "os_path_join a b = (if take 1 b = ''/'' then b else dir_prefix a @ b)"

section \<open>The file system\<close>

text \<open>
  The file system is a finite table from path to content. Directories other than the
  output directory are not modelled, and file operations are taken to succeed: a table
  entry is a regular file that can be opened.
\<close>

type_synonym filesystem = "(string \<times> string) list"

definition path_exists :: "filesystem \<Rightarrow> string \<Rightarrow> bool" where
  \<comment> \<open>\<open>os.path.exists\<close>\<close>
  "path_exists fs p = (map_of fs p \<noteq> None)"

fun write_file :: "filesystem \<Rightarrow> string \<Rightarrow> string \<Rightarrow> filesystem" where
  \<comment> \<open>\<open>open(p, 'w')\<close> or \<open>open(p, 'wb')\<close>, write, close\<close>
  "write_file [] p c = [(p, c)]"
| "write_file ((q, d) # fs) p c =
     (if q = p then (p, c) # fs else (q, d) # write_file fs p c)"

definition append_file :: "filesystem \<Rightarrow> string \<Rightarrow> string \<Rightarrow> filesystem" where
  \<comment> \<open>a write to a file opened with mode \<open>'a'\<close>\<close>
  "append_file fs p c =
     write_file fs p (case map_of fs p of None \<Rightarrow> c | Some old \<Rightarrow> old @ c)"

definition listdir :: "string \<Rightarrow> filesystem \<Rightarrow> string list" where
  \<comment> \<open>\<open>os.listdir(d)\<close>: the names of the files directly in \<open>d\<close>\<close>
  "listdir d fs =
     filter (\<lambda>n. n \<noteq> [] \<and> CHR ''/'' \<notin> set n)
       (map (\<lambda>p. drop (length (dir_prefix d)) p)
          (filter (\<lambda>p. take (length (dir_prefix d)) p = dir_prefix d) (map fst fs)))"

section \<open>Feed data\<close>

record tdict =
  td_url :: "string option"
  td_type :: "string option"

datatype pt_value = PtList "tdict list" | PtDict tdict | PtOther

record link =
  l_rel :: "string option"
  l_href :: "string option"
  l_type :: "string option"

text \<open>
  \<open>published_parsed\<close> is a \<open>time.struct_time\<close> that feedparser has normalised, so that
  \<open>datetime.datetime\<close>, applied to its first six fields, accepts it; only year, month
  and day reach the date prefix, which \<open>strftime\<close> pads with zeros to four, two and two
  digits.
\<close>

record struct_time =
  tm_year :: int
  tm_mon :: int
  tm_mday :: int

record entry =
  e_title :: "string option"
  e_published_parsed :: "struct_time option"
  e_podcast_transcript :: "pt_value option"
  e_links :: "link list option"

record feed =
  f_title :: "string option"
  f_entries :: "entry list"

text \<open>
  What the run takes from outside: the network (\<open>requests.get\<close> followed by
  \<open>raise_for_status\<close>: the exception's text, or the body), the feed parser, the
  text extraction of BeautifulSoup, and the codec of text-mode files: \<open>utf8_encode\<close> is
  what a text-mode write stores, \<open>utf8_decode\<close> what a text-mode read returns (with its
  newline translation), or \<open>None\<close> when the read raises.
\<close>

record env =
  net_get :: "string \<Rightarrow> string + string"
  feedparser_parse :: "string \<Rightarrow> string + feed"
  soup_get_text :: "string \<Rightarrow> string"
  utf8_encode :: "string \<Rightarrow> string"
  utf8_decode :: "string \<Rightarrow> string option"

definition html_to_text :: "env \<Rightarrow> string \<Rightarrow> string" where
  "html_to_text ev html_content = py_strip (soup_get_text ev html_content)"

section \<open>CSV rows\<close>

definition csv_field :: "string \<Rightarrow> string" where
  \<comment> \<open>\<open>csv.writer\<close> with the default dialect: minimal quoting, doubled quote characters\<close>
  "csv_field f =
     (if list_ex (\<lambda>c. c \<in> set [CHR '','', CHR 0x22, CHR 0x0D, CHR 0x0A]) f
      then [CHR 0x22] @ concat (map (\<lambda>c. if c = CHR 0x22 then [c, c] else [c]) f) @ [CHR 0x22]
      else f)"

fun intercalate :: "string \<Rightarrow> string list \<Rightarrow> string" where
  "intercalate sep [] = []"
| "intercalate sep [x] = x"
| "intercalate sep (x # y # ys) = x @ sep @ intercalate sep (y # ys)"

definition csv_row :: "string list \<Rightarrow> string" where
  "csv_row cells =
     (if cells = [Nil] then [CHR 0x22, CHR 0x22] else intercalate '','' (map csv_field cells))
     @ [CHR 0x0D, CHR 0x0A]"

section \<open>Aggregation\<close>

definition txt_files :: "string \<Rightarrow> filesystem \<Rightarrow> string list" where
  "txt_files output_dir fs =
     sort (filter (\<lambda>f. endswith f ''.txt'' \<and> \<not> py_in ''All_Transcripts'' f
                        \<and> f \<noteq> ''download_log.txt'')
             (listdir output_dir fs))"

definition read_text :: "env \<Rightarrow> filesystem \<Rightarrow> string \<Rightarrow> string option" where
  \<comment> \<open>\<open>open(p, 'r', encoding='utf-8').read()\<close>; \<open>None\<close> when it raises\<close>
  "read_text ev fs p = (case map_of fs p of None \<Rightarrow> None | Some b \<Rightarrow> utf8_decode ev b)"

definition episode_section :: "env \<Rightarrow> string \<Rightarrow> filesystem \<Rightarrow> string \<Rightarrow> string list" where
  \<comment> \<open>the writes of one iteration of the loop over \<open>txt_files\<close>\<close>
  "episode_section ev output_dir fs fname =
     (case read_text ev fs (os_path_join output_dir fname) of
        None \<Rightarrow> []
      | Some content \<Rightarrow>
          [''EPISODE: '' @ fname @ nl,
           replicate 80 CHR ''-'' @ nl,
           content,
           nl @ nl @ replicate 80 CHR ''='' @ nl @ nl])"

definition agg_name :: "string \<Rightarrow> string" where
  "agg_name podcast_title = sanitize_filename podcast_title @ ''_All_Transcripts.txt''"

definition agg_header :: "string \<Rightarrow> string \<Rightarrow> string list" where
  "agg_header podcast_title now =
     [''AGGREGATED TRANSCRIPTS FOR: '' @ podcast_title @ nl,
      ''Generated: '' @ now @ nl,
      replicate 80 CHR ''='' @ nl @ nl]"

definition create_aggregated_file ::
  "env \<Rightarrow> string \<Rightarrow> string \<Rightarrow> string \<Rightarrow> filesystem \<Rightarrow> filesystem" where
  \<comment> \<open>\<open>now\<close> is the text of \<open>datetime.datetime.now()\<close> at the call\<close>
  "create_aggregated_file ev now output_dir podcast_title fs =
     (let fl = txt_files output_dir fs in
      if fl = [] then fs
      else
        let agg_path = os_path_join output_dir (agg_name podcast_title);
            fs0 = write_file fs agg_path [];
            writes = agg_header podcast_title now
                     @ concat (map (episode_section ev output_dir fs0) fl)
        in write_file fs agg_path (concat (map (utf8_encode ev) writes)))"

section \<open>Resolving the transcript of an entry\<close>

definition truthy :: "string option \<Rightarrow> bool" where
  \<comment> \<open>Python's truth value of \<open>None\<close> or a string\<close>
  "truthy u = (u \<noteq> None \<and> u \<noteq> Some [])"

definition strategy1 :: "entry \<Rightarrow> string option \<times> string option" where
  \<comment> \<open>the \<open>podcast_transcript\<close> key: the first element of a non-empty list, or a single dict\<close>
  "strategy1 e =
     (case e_podcast_transcript e of
        None \<Rightarrow> (None, None)
      | Some (PtList []) \<Rightarrow> (None, None)
      | Some (PtList (d # ds)) \<Rightarrow> (td_url d, td_type d)
      | Some (PtDict d) \<Rightarrow> (td_url d, td_type d)
      | Some PtOther \<Rightarrow> (None, None))"

definition resolve :: "entry \<Rightarrow> string option \<times> string option" where
  \<comment> \<open>\<open>(transcript_url, transcript_type)\<close> after both strategies\<close>
  "resolve e =
     (let (u, t) = strategy1 e in
      if \<not> truthy u \<and> e_links e \<noteq> None
      then (case find (\<lambda>l. l_rel l = Some ''transcript'') (the (e_links e)) of
              None \<Rightarrow> (u, t)
            | Some l \<Rightarrow> (l_href l, l_type l))
      else (u, t))"

definition ext_of :: "string option \<Rightarrow> string" where
  "ext_of transcript_type =
     (if transcript_type = Some ''application/json'' then ''.json''
      else if transcript_type = Some ''text/vtt'' then ''.vtt''
      else if transcript_type = Some ''application/srt'' then ''.srt''
      else if transcript_type = Some ''text/html'' then ''.html''
      else ''.txt'')"

definition strftime_ymd :: "struct_time \<Rightarrow> string" where
  \<comment> \<open>\<open>strftime('%Y-%m-%d')\<close>\<close>
  "strftime_ymd tm =
     zfill 4 (py_str (tm_year tm)) @ ''-'' @ zfill 2 (py_str (tm_mon tm)) @ ''-''
     @ zfill 2 (py_str (tm_mday tm))"

definition date_prefix :: "entry \<Rightarrow> string" where
  "date_prefix e =
     (case e_published_parsed e of None \<Rightarrow> ''0000-00-00'' | Some tm \<Rightarrow> strftime_ymd tm)"

definition episode_title :: "nat \<Rightarrow> entry \<Rightarrow> string" where
  \<comment> \<open>\<open>entry.get('title', f"Episode_{i}")\<close>\<close>
  "episode_title i e = (case e_title e of None \<Rightarrow> ''Episode_'' @ py_str (int i) | Some t \<Rightarrow> t)"

definition filename_of :: "nat \<Rightarrow> entry \<Rightarrow> string" where
  "filename_of i e =
     date_prefix e @ ''_'' @ sanitize_filename (episode_title i e) @ ext_of (snd (resolve e))"

definition check_path_of :: "string \<Rightarrow> nat \<Rightarrow> entry \<Rightarrow> string" where
  "check_path_of output_dir i e =
     (let file_path = os_path_join output_dir (filename_of i e) in
      if ext_of (snd (resolve e)) = ''.html'' then html_to_txt file_path else file_path)"

definition txt_path_of :: "string \<Rightarrow> nat \<Rightarrow> entry \<Rightarrow> string" where
  \<comment> \<open>where the converted text of an HTML transcript is written\<close>
  "txt_path_of output_dir i e = os_path_join output_dir (html_to_txt (filename_of i e))"

section \<open>One iteration of the loop over the entries\<close>

datatype outcome =
  Success string | SkippedNoTranscript | SkippedAlreadyExists | DownloadFailed string

text \<open>
  The state of a run: the file system, the three counters, the URLs requested so far
  and, for each entry processed, the branch it took (with the name logged on success,
  or the exception's text on failure). Lines of the log reach the file as they are
  written; the source holds them in the buffer of the open file, which nothing in the run
  reads. What is printed to standard output is left out.
\<close>

record run_state =
  st_fs :: filesystem
  success_count :: nat
  skip_count :: nat
  fail_count :: nat
  st_requests :: "string list"
  st_outcomes :: "outcome list"

definition log_path_of :: "string \<Rightarrow> string" where
  "log_path_of output_dir = os_path_join output_dir ''download_log.txt''"

definition csv_path_of :: "string \<Rightarrow> string" where
  "csv_path_of output_dir = os_path_join output_dir ''skipped_episodes.csv''"

definition log_write :: "env \<Rightarrow> string \<Rightarrow> string \<Rightarrow> filesystem \<Rightarrow> filesystem" where
  "log_write ev output_dir line fs = append_file fs (log_path_of output_dir) (utf8_encode ev line)"

definition csv_write :: "env \<Rightarrow> string \<Rightarrow> string list \<Rightarrow> filesystem \<Rightarrow> filesystem" where
  "csv_write ev output_dir cells fs =
     append_file fs (csv_path_of output_dir) (utf8_encode ev (csv_row cells))"

definition process_entry :: "env \<Rightarrow> string \<Rightarrow> run_state \<Rightarrow> nat \<Rightarrow> entry \<Rightarrow> run_state" where
  "process_entry ev output_dir st i e =
     (let title = episode_title i e;
          (transcript_url, transcript_type) = resolve e
      in
      if \<not> truthy transcript_url then
        st\<lparr>st_fs := csv_write ev output_dir
                      [title, ''No Tag'', date_prefix e, ''No podcast:transcript tag found'']
                      (log_write ev output_dir (''SKIP [No Tag]: '' @ title @ nl) (st_fs st)),
           skip_count := skip_count st + 1,
           st_outcomes := st_outcomes st @ [SkippedNoTranscript]\<rparr>
      else
        let ext = ext_of transcript_type;
            filename = filename_of i e;
            file_path = os_path_join output_dir filename;
            check_path = check_path_of output_dir i e
        in
        if path_exists (st_fs st) check_path then
          st\<lparr>st_fs := log_write ev output_dir (''SKIP [Exists]: '' @ title @ nl) (st_fs st),
             skip_count := skip_count st + 1,
             st_outcomes := st_outcomes st @ [SkippedAlreadyExists]\<rparr>
        else
          (case net_get ev (the transcript_url) of
             Inl err \<Rightarrow>
               st\<lparr>st_fs := csv_write ev output_dir [title, ''Download Error'', date_prefix e, err]
                             (log_write ev output_dir (''ERROR: '' @ title @ '' - '' @ err @ nl)
                                (st_fs st)),
                  fail_count := fail_count st + 1,
                  st_requests := st_requests st @ [the transcript_url],
                  st_outcomes := st_outcomes st @ [DownloadFailed err]\<rparr>
           | Inr content \<Rightarrow>
               let fs1 = write_file (st_fs st) file_path content in
               if ext = ''.html'' then
                 let text_content = html_to_text ev content;
                     txt_filename = html_to_txt filename;
                     txt_path = os_path_join output_dir txt_filename;
                     fs2 = write_file fs1 txt_path (utf8_encode ev text_content)
                 in
                 st\<lparr>st_fs := log_write ev output_dir
                                (''SUCCESS: '' @ title @ '' -> '' @ txt_filename @ '' (from HTML)'' @ nl)
                                fs2,
                    success_count := success_count st + 1,
                    st_requests := st_requests st @ [the transcript_url],
                    st_outcomes := st_outcomes st @ [Success txt_filename]\<rparr>
               else
                 let fs2 = write_file fs1 file_path content in
                 st\<lparr>st_fs := log_write ev output_dir
                                (''SUCCESS: '' @ title @ '' -> '' @ filename @ nl) fs2,
                    success_count := success_count st + 1,
                    st_requests := st_requests st @ [the transcript_url],
                    st_outcomes := st_outcomes st @ [Success filename]\<rparr>))"

fun process_entries :: "env \<Rightarrow> string \<Rightarrow> run_state \<Rightarrow> nat \<Rightarrow> entry list \<Rightarrow> run_state" where
  \<comment> \<open>\<open>for i, entry in enumerate(feed.entries)\<close>, from index \<open>i\<close> on\<close>
  "process_entries ev output_dir st i [] = st"
| "process_entries ev output_dir st i (e # es) =
     process_entries ev output_dir (process_entry ev output_dir st i e) (Suc i) es"

section \<open>The whole run\<close>

datatype run_status = FetchFailed string | NoFeedTitle | MakedirsFailed | Completed

record run_result =
  r_status :: run_status
  r_state :: run_state

definition init_state :: "filesystem \<Rightarrow> string list \<Rightarrow> run_state" where
  "init_state fs reqs =
     \<lparr>st_fs = fs, success_count = 0, skip_count = 0, fail_count = 0,
      st_requests = reqs, st_outcomes = []\<rparr>"

definition csv_init :: "env \<Rightarrow> string \<Rightarrow> filesystem \<Rightarrow> filesystem" where
  "csv_init ev output_dir fs =
     (if path_exists fs (csv_path_of output_dir) then fs
      else write_file fs (csv_path_of output_dir)
             (utf8_encode ev (csv_row [''Episode Title'', ''Reason'', ''Date'', ''Details''])))"

definition output_dir_of :: "string \<Rightarrow> string \<Rightarrow> string" where
  "output_dir_of output_base feed_title =
     os_path_join output_base (sanitize_filename feed_title)"

definition run_entries ::
  "env \<Rightarrow> string \<Rightarrow> string \<Rightarrow> entry list \<Rightarrow> run_state \<Rightarrow> run_state" where
  \<comment> \<open>from the creation of the CSV to the end of the loop; \<open>now_run\<close> is the text of
      \<open>datetime.datetime.now()\<close> in the banner\<close>
  "run_entries ev now_run output_dir es st =
     process_entries ev output_dir
       (st\<lparr>st_fs := log_write ev output_dir (''--- Run started at '' @ now_run @ '' ---'' @ nl)
                       (csv_init ev output_dir (st_fs st))\<rparr>)
       0 es"

definition get_transcripts ::
  "env \<Rightarrow> string \<Rightarrow> string \<Rightarrow> string \<Rightarrow> string \<Rightarrow> filesystem \<Rightarrow> run_result" where
  "get_transcripts ev now_run now_agg rss_url output_base fs =
     (case net_get ev rss_url of
        Inl err \<Rightarrow> \<lparr>r_status = FetchFailed err, r_state = init_state fs [rss_url]\<rparr>
      | Inr feed_content \<Rightarrow>
          (case feedparser_parse ev feed_content of
             Inl err \<Rightarrow> \<lparr>r_status = FetchFailed err, r_state = init_state fs [rss_url]\<rparr>
           | Inr fd \<Rightarrow>
               (case f_title fd of
                  None \<Rightarrow> \<lparr>r_status = NoFeedTitle, r_state = init_state fs [rss_url]\<rparr>
                | Some feed_title \<Rightarrow>
                    let podcast_title = sanitize_filename feed_title;
                        output_dir = os_path_join output_base podcast_title
                    in
                    if output_dir = [] then
                      \<lparr>r_status = MakedirsFailed, r_state = init_state fs [rss_url]\<rparr>
                    else
                      let st = run_entries ev now_run output_dir (f_entries fd)
                                 (init_state fs [rss_url])
                      in \<lparr>r_status = Completed,
                          r_state = st\<lparr>st_fs := create_aggregated_file ev now_agg output_dir
                                                    podcast_title (st_fs st)\<rparr>\<rparr>)))"

section \<open>Predicates used in the proofs\<close>






section \<open>Example inputs\<close>

text \<open>
  A small world: a feed \<open>Pod\<close> of four episodes (an HTML transcript in the extension
  field, a VTT transcript as the first of a list, an entry with no transcript, an entry
  whose transcript link answers 404), and a feed whose title contains \<open>.html\<close>.
\<close>

definition ex_html :: entry where
  "ex_html = \<lparr>e_title = Some ''Ep 1: A/B?'',
              e_published_parsed = Some \<lparr>tm_year = 2023, tm_mon = 1, tm_mday = 5\<rparr>,
              e_podcast_transcript =
                Some (PtDict \<lparr>td_url = Some ''http://h/t1.html'', td_type = Some ''text/html''\<rparr>),
              e_links = Some [\<lparr>l_rel = Some ''transcript'', l_href = Some ''http://h/t1.srt'',
                               l_type = Some ''application/srt''\<rparr>]\<rparr>"


definition ex_vtt :: entry where
  "ex_vtt = \<lparr>e_title = Some ''Ep 2'',
             e_published_parsed = Some \<lparr>tm_year = 2023, tm_mon = 2, tm_mday = 1\<rparr>,
             e_podcast_transcript =
               Some (PtList [\<lparr>td_url = Some ''http://h/t2.vtt'', td_type = Some ''text/vtt''\<rparr>,
                             \<lparr>td_url = Some ''http://h/t2.json'',
                              td_type = Some ''application/json''\<rparr>]),
             e_links = None\<rparr>"

definition ex_notag :: entry where
  "ex_notag = \<lparr>e_title = None, e_published_parsed = None, e_podcast_transcript = None,
               e_links = Some [\<lparr>l_rel = Some ''alternate'', l_href = Some ''http://h/ep3'',
                                l_type = Some ''text/html''\<rparr>]\<rparr>"

definition ex_broken :: entry where
  "ex_broken = \<lparr>e_title = Some ''Ep 4'',
                e_published_parsed = Some \<lparr>tm_year = 2023, tm_mon = 1, tm_mday = 15\<rparr>,
                e_podcast_transcript = None,
                e_links = Some [\<lparr>l_rel = Some ''enclosure'', l_href = Some ''http://h/ep4.mp3'',
                                 l_type = Some ''audio/mpeg''\<rparr>,
                                \<lparr>l_rel = Some ''transcript'', l_href = Some ''http://h/t4.srt'',
                                 l_type = Some ''application/srt''\<rparr>]\<rparr>"

definition ex_fallback :: entry where
  \<comment> \<open>an extension field without a URL, next to a transcript link\<close>
  "ex_fallback = \<lparr>e_title = Some ''Ep 5'', e_published_parsed = None,
                  e_podcast_transcript =
                    Some (PtDict \<lparr>td_url = None, td_type = Some ''text/vtt''\<rparr>),
                  e_links = Some [\<lparr>l_rel = Some ''transcript'', l_href = Some ''http://h/t5.srt'',
                                   l_type = Some ''application/srt''\<rparr>]\<rparr>"


definition ex_feed :: feed where
  "ex_feed = \<lparr>f_title = Some ''Pod'', f_entries = [ex_html, ex_vtt, ex_notag, ex_broken]\<rparr>"

definition ex_feed_dot_html :: feed where
  "ex_feed_dot_html = \<lparr>f_title = Some ''Show.html'', f_entries = [ex_html]\<rparr>"

definition ex_env :: env where
  "ex_env =
     \<lparr>net_get = (\<lambda>u. if u = ''http://h/feed.xml'' then Inr ''<rss>Pod</rss>''
                     else if u = ''http://h/feed2.xml'' then Inr ''<rss>Show.html</rss>''
                     else if u = ''http://h/t1.html'' then Inr ''<p>Hello</p><p>World</p>''
                     else if u = ''http://h/t2.vtt'' then Inr ''WEBVTT''
                     else Inl ''404 Client Error''),
      feedparser_parse = (\<lambda>b. if b = ''<rss>Pod</rss>'' then Inr ex_feed
                              else if b = ''<rss>Show.html</rss>'' then Inr ex_feed_dot_html
                              else Inr \<lparr>f_title = None, f_entries = []\<rparr>),
      soup_get_text = (\<lambda>b. if b = ''<p>Hello</p><p>World</p>''
                           then ''Hello'' @ nl @ nl @ ''World'' else b),
      utf8_encode = (\<lambda>s. s),
      utf8_decode = (\<lambda>b. Some b)\<rparr>"



definition ex_dot_run1 :: run_result where
  \<comment> \<open>a first run on the feed \<open>Show.html\<close>\<close>
  "ex_dot_run1 = get_transcripts ex_env ''2024-05-01 10:00:00'' ''2024-05-01 10:00:09''
                   ''http://h/feed2.xml'' ''downloads'' []"

definition ex_dot_run2 :: run_result where
  "ex_dot_run2 = get_transcripts ex_env ''2024-05-02 10:00:00'' ''2024-05-02 10:00:03''
                   ''http://h/feed2.xml'' ''downloads'' (st_fs (r_state ex_dot_run1))"



section \<open>Facts about the file system and paths\<close>



lemma os_path_join_rel: "take 1 b \<noteq> ''/'' \<Longrightarrow> os_path_join a b = dir_prefix a @ b"
  by (simp add: os_path_join_def)














section \<open>Facts about \<open>strip\<close>\<close>





section \<open>Facts about the replacement of \<open>.html\<close>\<close>












section \<open>Facts about one iteration and about the loop\<close>



































section \<open>Facts about aggregation\<close>










section \<open>The claims\<close>




text \<open>
  C2 (as amended). When the transcript extension field yields a non-empty URL (from the
  first element of a non-empty list, or from the single record), resolution takes the URL
  and the type from it and ignores every link. When the field yields no URL (it is an
  empty list or of another shape, or the URL is absent or empty), resolution falls back
  to the first link of relation \<open>transcript\<close>, if there is one, and takes both the URL
  and the type from the link.
\<close>

theorem resolver_priority:
  "((e_podcast_transcript e = Some (PtList (d # ds)) \<or> e_podcast_transcript e = Some (PtDict d))
      \<and> truthy (td_url d)
      \<longrightarrow> resolve e = (td_url d, td_type d))
   \<and> (\<not> truthy (fst (strategy1 e)) \<and> e_links e = Some ls
        \<and> find (\<lambda>l. l_rel l = Some ''transcript'') ls = Some l
      \<longrightarrow> resolve e = (l_href l, l_type l))"
proof (intro conjI impI)
  assume a: "(e_podcast_transcript e = Some (PtList (d # ds))
               \<or> e_podcast_transcript e = Some (PtDict d)) \<and> truthy (td_url d)"
  then have "strategy1 e = (td_url d, td_type d)"
    by (auto simp: strategy1_def)
  with a show "resolve e = (td_url d, td_type d)"
    by (simp add: resolve_def)
next
  assume a: "\<not> truthy (fst (strategy1 e)) \<and> e_links e = Some ls
             \<and> find (\<lambda>l. l_rel l = Some ''transcript'') ls = Some l"
  obtain u t where s: "strategy1 e = (u, t)" by (cases "strategy1 e")
  with a show "resolve e = (l_href l, l_type l)"
    by (simp add: resolve_def)
qed

theorem resolver_priority_witness:
  "e_podcast_transcript ex_html
     = Some (PtDict \<lparr>td_url = Some ''http://h/t1.html'', td_type = Some ''text/html''\<rparr>)
   \<and> truthy (Some ''http://h/t1.html'')
   \<and> map l_rel (the (e_links ex_html)) = [Some ''transcript'']
   \<and> resolve ex_html = (Some ''http://h/t1.html'', Some ''text/html'')"
proof -
  let ?d = "\<lparr>td_url = Some ''http://h/t1.html'', td_type = Some ''text/html''\<rparr>"
  have h1: "e_podcast_transcript ex_html = Some (PtDict ?d)" by (simp add: ex_html_def)
  have h2: "truthy (Some ''http://h/t1.html'')" by (simp add: truthy_def)
  have h3: "map l_rel (the (e_links ex_html)) = [Some ''transcript'']" by (simp add: ex_html_def)
  have pre: "(e_podcast_transcript ex_html = Some (PtList (?d # []))
          \<or> e_podcast_transcript ex_html = Some (PtDict ?d)) \<and> truthy (td_url ?d)"
    using h1 h2 by simp
  have "resolve ex_html = (td_url ?d, td_type ?d)"
    by (rule resolver_priority [THEN conjunct1, THEN mp, OF pre])
  then have r: "resolve ex_html = (Some ''http://h/t1.html'', Some ''text/html'')" by simp
  from h1 h2 h3 r show ?thesis by (intro conjI)
qed

theorem resolver_priority_counterexample:
  "e_podcast_transcript ex_fallback
     = Some (PtDict \<lparr>td_url = None, td_type = Some ''text/vtt''\<rparr>)
   \<and> map l_rel (the (e_links ex_fallback)) = [Some ''transcript'']
   \<and> resolve ex_fallback = (Some ''http://h/t5.srt'', Some ''application/srt'')
   \<and> resolve ex_fallback \<noteq> (None, Some ''text/vtt'')"
  by (simp add: ex_fallback_def resolve_def strategy1_def truthy_def)



text \<open>
  C4 (the code at a failing input). The feed \<open>Show.html\<close> gives the output directory
  \<open>downloads/Show.html\<close>. The first run writes the converted text of its one HTML
  episode there; the second run checks a path in \<open>downloads/Show.txt\<close> instead, finds
  nothing, requests the transcript again and counts a second success.
\<close>

theorem html_check_misses_converted_text:
  "st_outcomes (r_state ex_dot_run1) = [Success ''2023-01-05_Ep 1 AB.txt'']
   \<and> path_exists (st_fs (r_state ex_dot_run1)) ''downloads/Show.html/2023-01-05_Ep 1 AB.txt''
   \<and> txt_path_of ''downloads/Show.html'' 0 ex_html = ''downloads/Show.html/2023-01-05_Ep 1 AB.txt''
   \<and> \<not> path_exists (st_fs (r_state ex_dot_run1)) (check_path_of ''downloads/Show.html'' 0 ex_html)
   \<and> st_outcomes (r_state ex_dot_run2) = [Success ''2023-01-05_Ep 1 AB.txt'']
   \<and> st_requests (r_state ex_dot_run2) = [''http://h/feed2.xml'', ''http://h/t1.html'']
   \<and> success_count (r_state ex_dot_run2) = 1"
  by code_simp



text \<open>
  C6. The declared media type is mapped to the extension exactly and case-sensitively:
  \<open>application/json\<close> to \<open>.json\<close>, \<open>text/vtt\<close> to \<open>.vtt\<close>, \<open>application/srt\<close> to
  \<open>.srt\<close>, \<open>text/html\<close> to \<open>.html\<close>; an absent type and every other type (a type that
  differs in case only, for one) give \<open>.txt\<close>. The file name of an entry ends in the
  extension of its resolved type.
\<close>

theorem type_mapping_table:
  "ext_of (Some ''application/json'') = ''.json''
   \<and> ext_of (Some ''text/vtt'') = ''.vtt''
   \<and> ext_of (Some ''application/srt'') = ''.srt''
   \<and> ext_of (Some ''text/html'') = ''.html''
   \<and> ext_of None = ''.txt''
   \<and> ext_of (Some ''Text/HTML'') = ''.txt''
   \<and> (t \<notin> {''application/json'', ''text/vtt'', ''application/srt'', ''text/html''}
        \<longrightarrow> ext_of (Some t) = ''.txt'')
   \<and> endswith (filename_of i e) (ext_of (snd (resolve e)))"
proof -
  have "endswith (filename_of i e) (ext_of (snd (resolve e)))"
    by (simp add: endswith_def filename_of_def)
  then show ?thesis by (simp add: ext_of_def)
qed

theorem type_mapping_table_witness:
  "''text/plain'' \<notin> {''application/json'', ''text/vtt'', ''application/srt'', ''text/html''}
   \<and> ext_of (Some ''text/plain'') = ''.txt''
   \<and> snd (resolve ex_vtt) = Some ''text/vtt''
   \<and> filename_of 1 ex_vtt = ''2023-02-01_Ep 2.vtt''
   \<and> endswith (filename_of 1 ex_vtt) ''.vtt''"
proof -
  have h: "''text/plain'' \<notin> {''application/json'', ''text/vtt'', ''application/srt'', ''text/html''}"
    by simp
  have r: "snd (resolve ex_vtt) = Some ''text/vtt''" by code_simp
  have f: "filename_of 1 ex_vtt = ''2023-02-01_Ep 2.vtt''" by code_simp
  from type_mapping_table [of "''text/plain''" 1 ex_vtt]
  have "ext_of (Some ''text/plain'') = ''.txt''"
    and "ext_of (Some ''text/vtt'') = ''.vtt''"
    and "endswith (filename_of 1 ex_vtt) (ext_of (snd (resolve ex_vtt)))"
    using h by blast+
  then show ?thesis using h r f by simp
qed






text \<open>
  C9 (the code at a failing input). The check path is the replacement applied to the
  whole path, the directory included, while the converted text is written under the
  replacement applied to the file name alone: for the output directory
  \<open>downloads/Show.html\<close> the two differ.
\<close>

theorem check_path_rewrites_directory:
  "output_dir_of ''downloads'' ''Show.html'' = ''downloads/Show.html''
   \<and> filename_of 0 ex_html = ''2023-01-05_Ep 1 AB.html''
   \<and> check_path_of ''downloads/Show.html'' 0 ex_html = ''downloads/Show.txt/2023-01-05_Ep 1 AB.txt''
   \<and> txt_path_of ''downloads/Show.html'' 0 ex_html = ''downloads/Show.html/2023-01-05_Ep 1 AB.txt''
   \<and> check_path_of ''downloads/Show.html'' 0 ex_html
       \<noteq> os_path_join ''downloads/Show.html'' ''2023-01-05_Ep 1 AB.txt''"
  by code_simp




end
